theory Spec2Isabelle
  imports Complex_Main
begin

section \<open>The JavaScript values the handlers of \<open>index.js\<close> work on\<close>

text \<open>
  Strings are byte strings holding the UTF-8 encoding of the JavaScript string. Every
  pattern the handlers search for is ASCII, so searching the bytes finds what searching
  the code units finds.

  A number is a binary64 value. The model keeps the three non-finite values apart and
  writes a finite value as the rational it denotes; the two zeros are one value, as they
  are for \<open>===\<close> and for truthiness. Rounding a decimal literal to binary64 and printing
  a number are not computed here: both are taken from the \<open>runtime\<close> record below, and
  every theorem holds for every runtime.
\<close>

datatype jsnum = NaN | PosInfinity | NegInfinity | Finite rat

datatype jsval =
    Undefined
  | Null
  | Bool bool
  | Num jsnum
  | Str string
  | Arr "jsval list"
  | Obj "(string \<times> jsval) list"

datatype js_error =
    CannotReadProperty string
  | CannotConvertToPrimitive

record runtime =
  StringToNumber :: "rat \<Rightarrow> jsnum"
  NumberToString :: "jsnum \<Rightarrow> string"
  toLocaleString :: "string \<Rightarrow> string"

text \<open>
  \<open>StringToNumber\<close> rounds the exact value of a decimal literal to a number,
  \<open>NumberToString\<close> is \<open>Number.prototype.toString\<close>, and \<open>toLocaleString\<close> is
  \<open>new Date(s).toLocaleString()\<close> of an ISO timestamp \<open>s\<close>.
\<close>

subsection \<open>Truthiness, property reads, conversion to string\<close>

fun truthy :: "jsval \<Rightarrow> bool" where
  "truthy Undefined = False"
| "truthy Null = False"
| "truthy (Bool b) = b"
| "truthy (Num n) = (n \<noteq> NaN \<and> n \<noteq> Finite 0)"
| "truthy (Str s) = (s \<noteq> [])"
| "truthy (Arr xs) = True"
| "truthy (Obj ps) = True"

text \<open>
  \<open>v.k\<close> for the keys \<open>temp\<close> and \<open>hum\<close>, which no prototype defines: reading a
  property of \<open>undefined\<close> or \<open>null\<close> throws a TypeError, an object gives its own
  property or \<open>undefined\<close>, every other value gives \<open>undefined\<close>.
\<close>

fun get_prop :: "jsval \<Rightarrow> string \<Rightarrow> js_error + jsval" where
  "get_prop Undefined k = Inl (CannotReadProperty k)"
| "get_prop Null k = Inl (CannotReadProperty k)"
| "get_prop (Obj ps) k = Inr (case map_of ps k of None \<Rightarrow> Undefined | Some v \<Rightarrow> v)"
| "get_prop v k = Inr Undefined"

fun join_with :: "string \<Rightarrow> string list \<Rightarrow> string" where
  "join_with sep [] = []"
| "join_with sep [s] = s"
| "join_with sep (s # t # ss) = s @ sep @ join_with sep (t # ss)"

fun collect :: "(js_error + 'a) list \<Rightarrow> js_error + 'a list" where
  "collect [] = Inr []"
| "collect (Inl e # rs) = Inl e"
| "collect (Inr x # rs) = (case collect rs of Inl e \<Rightarrow> Inl e | Inr xs \<Rightarrow> Inr (x # xs))"

text \<open>
  \<open>ToString\<close> of ECMAScript. An array joins the strings of its elements with commas,
  \<open>undefined\<close> and \<open>null\<close> elements giving the empty string. An object parsed from a
  request has \<open>Object.prototype\<close> as its prototype and no callable property of its own:
  it prints as \<open>[object Object]\<close> unless it has an own property \<open>toString\<close>, which then
  hides the inherited method, and the conversion throws a TypeError.
\<close>

fun ToString :: "runtime \<Rightarrow> jsval \<Rightarrow> js_error + string" where
  "ToString rt Undefined = Inr ''undefined''"
| "ToString rt Null = Inr ''null''"
| "ToString rt (Bool b) = Inr (if b then ''true'' else ''false'')"
| "ToString rt (Num n) = Inr (NumberToString rt n)"
| "ToString rt (Str s) = Inr s"
| "ToString rt (Arr xs) =
     (case collect (map (\<lambda>x. if x = Undefined \<or> x = Null then Inr [] else ToString rt x) xs) of
        Inl e \<Rightarrow> Inl e
      | Inr ss \<Rightarrow> Inr (join_with '','' ss))"
| "ToString rt (Obj ps) =
     (if ''toString'' \<in> fst ` set ps then Inl CannotConvertToPrimitive
      else Inr ''[object Object]'')"

subsection \<open>String search\<close>

fun startsWith :: "string \<Rightarrow> string \<Rightarrow> bool" where
  "startsWith s [] = True"
| "startsWith [] (p # ps) = False"
| "startsWith (c # cs) (p # ps) = (c = p \<and> startsWith cs ps)"

fun str_includes :: "string \<Rightarrow> string \<Rightarrow> bool" where
  "str_includes [] sub = (sub = [])"
| "str_includes (c # cs) sub = (startsWith (c # cs) sub \<or> str_includes cs sub)"

definition is_digit :: "char \<Rightarrow> bool" where
  "is_digit c = (c \<in> set ''0123456789'')"

text \<open>
  The first capture group of \<open>/key=([\d.]+)/\<close> on \<open>s\<close>, or \<open>None\<close> where \<open>match\<close>
  returns \<open>null\<close>: the leftmost place where \<open>key=\<close> is followed by at least one digit
  or dot, and the longest run of digits and dots there.
\<close>

fun match_number_after :: "string \<Rightarrow> string \<Rightarrow> string option" where
  "match_number_after key [] = None"
| "match_number_after key (c # cs) =
     (let run = takeWhile (\<lambda>d. is_digit d \<or> d = CHR ''.'') (drop (length key + 1) (c # cs))
      in if startsWith (c # cs) (key @ ''='') \<and> run \<noteq> [] then Some run
         else match_number_after key cs)"

subsection \<open>parseFloat\<close>

text \<open>
  The white space \<open>parseFloat\<close> skips (WhiteSpace and LineTerminator of ECMAScript), in
  UTF-8: TAB, LF, VT, FF, CR, SP, U+00A0, U+1680, U+2000 to U+200A, U+2028, U+2029,
  U+202F, U+205F, U+3000 and U+FEFF.
\<close>

definition white_space :: "string list" where
  "white_space =
     [[CHR 0x09], [CHR 0x0A], [CHR 0x0B], [CHR 0x0C], [CHR 0x0D], [CHR 0x20],
      [CHR 0xC2, CHR 0xA0],
      [CHR 0xE1, CHR 0x9A, CHR 0x80],
      [CHR 0xE2, CHR 0x80, CHR 0x80], [CHR 0xE2, CHR 0x80, CHR 0x81],
      [CHR 0xE2, CHR 0x80, CHR 0x82], [CHR 0xE2, CHR 0x80, CHR 0x83],
      [CHR 0xE2, CHR 0x80, CHR 0x84], [CHR 0xE2, CHR 0x80, CHR 0x85],
      [CHR 0xE2, CHR 0x80, CHR 0x86], [CHR 0xE2, CHR 0x80, CHR 0x87],
      [CHR 0xE2, CHR 0x80, CHR 0x88], [CHR 0xE2, CHR 0x80, CHR 0x89],
      [CHR 0xE2, CHR 0x80, CHR 0x8A],
      [CHR 0xE2, CHR 0x80, CHR 0xA8], [CHR 0xE2, CHR 0x80, CHR 0xA9],
      [CHR 0xE2, CHR 0x80, CHR 0xAF],
      [CHR 0xE2, CHR 0x81, CHR 0x9F],
      [CHR 0xE3, CHR 0x80, CHR 0x80],
      [CHR 0xEF, CHR 0xBB, CHR 0xBF]]"

function trimStart :: "string \<Rightarrow> string" where
  "trimStart s =
     (case find (startsWith s) white_space of
        None \<Rightarrow> s
      | Some w \<Rightarrow> trimStart (drop (length w) s))"
  by pat_completeness auto
termination
proof (relation "measure length")
  show "wf (measure length)" by simp
next
  fix s w
  assume found: "find (startsWith s) white_space = Some w"
  then have "w \<in> set white_space" and p: "startsWith s w"
    by (auto simp: find_Some_iff)
  then have "w \<noteq> []" by (auto simp: white_space_def)
  with p have "length (drop (length w) s) < length s"
    by (cases s; cases w) auto
  then show "(drop (length w) s, s) \<in> measure length" by simp
qed

definition digits_value :: "string \<Rightarrow> nat" where
  "digits_value ds = foldl (\<lambda>a c. 10 * a + (of_char c - 48)) 0 ds"

text \<open>An exponent part at the head of \<open>s\<close>: \<open>e\<close> or \<open>E\<close>, an optional sign, digits.\<close>

definition ExponentPart :: "string \<Rightarrow> int option" where
  "ExponentPart s =
     (case s of
        [] \<Rightarrow> None
      | c # r \<Rightarrow>
          if c = CHR ''e'' \<or> c = CHR ''E'' then
            (let neg = startsWith r ''-'';
                 ds = takeWhile is_digit (if neg \<or> startsWith r ''+'' then tl r else r)
             in if ds = [] then None
                else Some (if neg then - int (digits_value ds) else int (digits_value ds)))
          else None)"

text \<open>
  The longest prefix of \<open>s\<close> that is a StrUnsignedDecimalLiteral, as a number:
  \<open>Infinity\<close>, or digits with an optional fraction, or a dot and digits, each with an
  optional exponent. No such prefix gives \<open>NaN\<close>.
\<close>

definition StrUnsignedDecimalLiteral :: "runtime \<Rightarrow> bool \<Rightarrow> string \<Rightarrow> jsnum" where
  "StrUnsignedDecimalLiteral rt neg s =
     (if startsWith s ''Infinity'' then (if neg then NegInfinity else PosInfinity)
      else
        let ip = takeWhile is_digit s;
            r1 = dropWhile is_digit s;
            dot = startsWith r1 ''.'';
            fp = (if dot then takeWhile is_digit (tl r1) else []);
            r2 = (if dot then dropWhile is_digit (tl r1) else r1)
        in if ip = [] \<and> fp = [] then NaN
           else
             let m = (of_nat (digits_value (ip @ fp)) :: rat) / 10 ^ length fp;
                 v = (case ExponentPart r2 of
                        None \<Rightarrow> m
                      | Some e \<Rightarrow> if 0 \<le> e then m * 10 ^ nat e else m / 10 ^ nat (- e))
             in StringToNumber rt (if neg then - v else v))"

definition parseFloat_string :: "runtime \<Rightarrow> string \<Rightarrow> jsnum" where
  "parseFloat_string rt s =
     (let t = trimStart s
      in if startsWith t ''-'' then StrUnsignedDecimalLiteral rt True (tl t)
         else if startsWith t ''+'' then StrUnsignedDecimalLiteral rt False (tl t)
         else StrUnsignedDecimalLiteral rt False t)"

text \<open>\<open>parseFloat(v)\<close>: \<open>ToString(v)\<close>, which may throw, then the literal at its head.\<close>

definition parseFloat :: "runtime \<Rightarrow> jsval \<Rightarrow> js_error + jsnum" where
  "parseFloat rt v =
     (case ToString rt v of
        Inl e \<Rightarrow> Inl e
      | Inr s \<Rightarrow> Inr (parseFloat_string rt s))"

text \<open>\<open>x || 0\<close> for a number \<open>x\<close>: \<open>NaN\<close> and zero are falsy.\<close>

definition or_zero :: "jsnum \<Rightarrow> jsnum" where
  "or_zero x = (if truthy (Num x) then x else Finite 0)"

text \<open>
  \<open>xs.slice(start, end)\<close>: a negative index counts from the end, and both are clamped
  to the array.
\<close>

definition slice :: "'a list \<Rightarrow> int \<Rightarrow> int \<Rightarrow> 'a list" where
  "slice xs start fin =
     (let len = int (length xs);
          k = (if start < 0 then max (len + start) 0 else min start len);
          final = (if fin < 0 then max (len + fin) 0 else min fin len)
      in take (nat (final - k)) (drop (nat k) xs))"

section \<open>The state of the service\<close>

text \<open>
  \<open>sensorData\<close> holds two shapes of object: the \<open>dataEntry\<close> of \<open>POST /api/data\<close> and
  the \<open>entry\<close> of \<open>GET /api/simple\<close>. Both have \<open>timestamp\<close>, \<open>temperature\<close> and
  \<open>humidity\<close>, which is all the dashboard reads.
\<close>

datatype entry =
    DataEntry (entry_id: int) (timestamp: string) (temperature: jsval) (humidity: jsval)
      (receivedAt: string) (client: string)
  | SimpleEntry (timestamp: string) (temperature: jsval) (humidity: jsval)
      (http_method: string)

text \<open>
  The two counters are JavaScript numbers that only ever grow by one from 0; they are
  natural numbers here, which is what they are as long as they stay below \<open>2^53\<close>.
\<close>

record stats =
  totalRequests :: nat
  successfulPosts :: nat
  lastRequest :: "string option"

record state =
  sensorData :: "entry list"
  apiStats :: stats

definition initial_state :: state where
  "initial_state =
     \<lparr>sensorData = [],
      apiStats = \<lparr>totalRequests = 0, successfulPosts = 0, lastRequest = None\<rparr>\<rparr>"

text \<open>
  A request as a handler receives it, after the body parsers and the query parser have
  run. \<open>body\<close> is \<open>req.body\<close>: \<open>Undefined\<close> when no parser set it.
\<close>

record request =
  headers :: "(string \<times> string) list"
  body :: jsval
  query :: "(string \<times> jsval) list"

text \<open>
  What the clock returns during one request: \<open>new Date().toISOString()\<close> at the top of
  the handler and when the entry is built, \<open>Date.now()\<close>, and
  \<open>new Date().toLocaleString()\<close>.
\<close>

record clock =
  request_iso :: string
  now_ms :: int
  entry_iso :: string
  entry_locale :: string

record process_info =
  version :: string
  uptime :: jsnum
  memoryUsage :: jsval

text \<open>
  The responses, one constructor per shape, with the fields in the order of the source:
  \<open>{success: true, message, data, count, server}\<close> with status 200,
  \<open>{success: false, error, help}\<close> with status 400,
  \<open>{success: true, count, data, stats}\<close>, a text of a given content type,
  \<open>{status, server, runtime, uptime, memory, requests}\<close>, \<open>{received, data}\<close>,
  the HTML page, \<open>{message, endpoints, note}\<close>, an exception no handler caught, and
  the error response of a body parser.
\<close>

datatype response =
    PostOk string entry nat string
  | PostError js_error string
  | DataList nat "entry list" stats
  | PlainText string string
  | Health string string string jsnum jsval stats
  | SimpleOk bool entry
  | HtmlPage string
  | RootInfo string "(string \<times> string) list" string
  | Uncaught js_error
  | ParserError

section \<open>Handlers\<close>

text \<open>\<open>req.headers[k] || d\<close>: an absent header and an empty one both give \<open>d\<close>.\<close>

definition header_or :: "request \<Rightarrow> string \<Rightarrow> string \<Rightarrow> string" where
  "header_or req k d =
     (case map_of (headers req) k of
        None \<Rightarrow> d
      | Some v \<Rightarrow> if v = [] then d else v)"

definition and_then :: "js_error + 'a \<Rightarrow> ('a \<Rightarrow> js_error + 'b) \<Rightarrow> js_error + 'b" where
  "and_then r f = (case r of Inl e \<Rightarrow> Inl e | Inr x \<Rightarrow> f x)"

subsection \<open>\<open>POST /api/data\<close>\<close>

definition count_request :: "clock \<Rightarrow> state \<Rightarrow> state" where
  "count_request clk st =
     st\<lparr>apiStats := (apiStats st)
          \<lparr>totalRequests := totalRequests (apiStats st) + 1,
           lastRequest := Some (request_iso clk)\<rparr>\<rparr>"

text \<open>\<open>parseFloat(req.body.k) || 0\<close>\<close>

definition field_or_zero :: "runtime \<Rightarrow> request \<Rightarrow> string \<Rightarrow> js_error + jsnum" where
  "field_or_zero rt req k =
     and_then (get_prop (body req) k) (\<lambda>v.
     and_then (parseFloat rt v) (\<lambda>x. Inr (or_zero x)))"

text \<open>\<open>m ? parseFloat(m[1]) : 0\<close>\<close>

definition match_or_zero :: "runtime \<Rightarrow> string option \<Rightarrow> js_error + jsnum" where
  "match_or_zero rt m =
     (case m of
        None \<Rightarrow> Inr (Finite 0)
      | Some g \<Rightarrow> parseFloat rt (Str g))"

text \<open>
  The three branches on the content type. The result is \<open>(temperature, humidity)\<close>, or
  the exception thrown on the way.
\<close>

definition parse_body :: "runtime \<Rightarrow> request \<Rightarrow> js_error + (jsnum \<times> jsnum)" where
  "parse_body rt req =
     (let contentType = header_or req ''content-type'' ''''
      in if str_includes contentType ''application/x-www-form-urlencoded'' then
           and_then (field_or_zero rt req ''temp'') (\<lambda>temperature.
           and_then (field_or_zero rt req ''hum'') (\<lambda>humidity.
           Inr (temperature, humidity)))
         else if str_includes contentType ''application/json'' then
           and_then (field_or_zero rt req ''temp'') (\<lambda>temperature.
           and_then (field_or_zero rt req ''hum'') (\<lambda>humidity.
           Inr (temperature, humidity)))
         else
           and_then (ToString rt (body req)) (\<lambda>bodyString.
           let tempMatch = match_number_after ''temp'' bodyString;
               humMatch = match_number_after ''hum'' bodyString
           in and_then (match_or_zero rt tempMatch) (\<lambda>temperature.
              and_then (match_or_zero rt humMatch) (\<lambda>humidity.
              Inr (temperature, humidity)))))"

definition make_entry :: "clock \<Rightarrow> request \<Rightarrow> jsnum \<times> jsnum \<Rightarrow> entry" where
  "make_entry clk req th =
     DataEntry (now_ms clk) (entry_iso clk) (Num (fst th)) (Num (snd th))
       (entry_locale clk) (header_or req ''user-agent'' ''Unknown'')"

text \<open>\<open>sensorData.unshift(dataEntry)\<close>, then the cut to the first 100.\<close>

definition store :: "entry \<Rightarrow> entry list \<Rightarrow> entry list" where
  "store dataEntry sd =
     (let unshifted = dataEntry # sd
      in if length unshifted > 100 then slice unshifted 0 100 else unshifted)"

text \<open>
  The handler: the two updates of \<open>apiStats\<close>, then the \<open>try\<close> block. Within it only
  the parsing can throw; the entry is built from numbers and strings, and storing it and
  sending it as JSON do not throw. The \<open>console\<close> output is left out.
\<close>

definition post_data :: "runtime \<Rightarrow> clock \<Rightarrow> request \<Rightarrow> state \<Rightarrow> response \<times> state" where
  "post_data rt clk req st =
     (let st1 = count_request clk st
      in case parse_body rt req of
           Inl e \<Rightarrow> (PostError e ''Send data as: temp=25.5&hum=60.0'', st1)
         | Inr th \<Rightarrow>
             let dataEntry = make_entry clk req th;
                 st2 = st1\<lparr>sensorData := store dataEntry (sensorData st1)\<rparr>;
                 st3 = st2\<lparr>apiStats := (apiStats st2)
                         \<lparr>successfulPosts := successfulPosts (apiStats st2) + 1\<rparr>\<rparr>
             in (PostOk ''Data received successfully'' dataEntry (length (sensorData st3))
                   ''Node.js API on Render'', st3))"

text \<open>
  The body parsers of lines 11 to 13 are registered with \<open>app.use\<close> and so run before
  the route handler. A body they cannot parse, such as malformed JSON under a JSON
  content type, ends the request there with an error response, and the handler is not
  called. Otherwise the handler is called with the request as the parsers left it.
  Which bodies are refused is decided in the parsers' library; a \<open>POST\<close> arrives here
  with that outcome.
\<close>

datatype arrival = Rejected | Passed request

definition app_post :: "runtime \<Rightarrow> clock \<Rightarrow> arrival \<Rightarrow> state \<Rightarrow> response \<times> state" where
  "app_post rt clk a st =
     (case a of
        Rejected \<Rightarrow> (ParserError, st)
      | Passed req \<Rightarrow> post_data rt clk req st)"

subsection \<open>The \<open>GET\<close> handlers\<close>

definition get_data :: "state \<Rightarrow> response \<times> state" where
  "get_data st = (DataList (length (sensorData st)) (sensorData st) (apiStats st), st)"

definition api_test :: "state \<Rightarrow> response \<times> state" where
  "api_test st = (PlainText ''text/plain'' ''OK - Node.js API is working!'', st)"

definition api_health :: "process_info \<Rightarrow> state \<Rightarrow> response \<times> state" where
  "api_health p st =
     (Health ''online'' ''Arduino Sensor API'' (''Node.js '' @ version p) (uptime p)
        (memoryUsage p) (apiStats st), st)"

text \<open>\<open>req.query.k || '0'\<close>\<close>

definition query_or_0 :: "request \<Rightarrow> string \<Rightarrow> jsval" where
  "query_or_0 req k =
     (let v = (case map_of (query req) k of None \<Rightarrow> Undefined | Some x \<Rightarrow> x)
      in if truthy v then v else Str ''0'')"

definition api_simple :: "clock \<Rightarrow> request \<Rightarrow> state \<Rightarrow> response \<times> state" where
  "api_simple clk req st =
     (let temp = query_or_0 req ''temp'';
          hum = query_or_0 req ''hum'';
          entry = SimpleEntry (request_iso clk) temp hum ''GET''
      in (SimpleOk True entry, st\<lparr>sensorData := entry # sensorData st\<rparr>))"

subsection \<open>\<open>GET /dashboard\<close> and \<open>GET /\<close>\<close>

text \<open>The fixed text of the page template, between its four holes.\<close>

definition page_head :: string where
  \<open>page_head = concat
     [[CHR 0x0A],
      ''  <!DOCTYPE html>'' @ [CHR 0x0A],
      ''  <html>'' @ [CHR 0x0A],
      ''  <head>'' @ [CHR 0x0A],
      ''    <title>Arduino Sensor Dashboard</title>'' @ [CHR 0x0A],
      ''    <style>'' @ [CHR 0x0A],
      ''      body { font-family: Arial, sans-serif; margin: 20px; }'' @ [CHR 0x0A],
      ''      .data-card { '' @ [CHR 0x0A],
      ''        background: #f5f5f5; '' @ [CHR 0x0A],
      ''        padding: 15px; '' @ [CHR 0x0A],
      ''        margin: 10px 0; '' @ [CHR 0x0A],
      ''        border-radius: 5px;'' @ [CHR 0x0A],
      ''      }'' @ [CHR 0x0A],
      ''      .success { color: green; }'' @ [CHR 0x0A],
      ''      .error { color: red; }'' @ [CHR 0x0A],
      ''    </style>'' @ [CHR 0x0A],
      ''  </head>'' @ [CHR 0x0A],
      ''  <body>'' @ [CHR 0x0A],
      ''    <h1>'' @ [CHR 0xF0, CHR 0x9F, CHR 0x93, CHR 0xB1] @ '' Arduino Sensor Dashboard</h1>'' @ [CHR 0x0A],
      ''    <p>Total readings: '']\<close>

definition page_before_cards :: string where
  \<open>page_before_cards = concat
     [''</p>'' @ [CHR 0x0A],
      ''    <div id="data-container">'' @ [CHR 0x0A],
      ''      '']\<close>

definition card_open :: string where
  \<open>card_open = concat
     [[CHR 0x0A],
      ''        <div class="data-card">'' @ [CHR 0x0A],
      ''          <strong>'']\<close>

definition card_after_date :: string where
  \<open>card_after_date = concat
     [''</strong><br>'' @ [CHR 0x0A],
      ''          '' @ [CHR 0xF0, CHR 0x9F, CHR 0x8C, CHR 0xA1, CHR 0xEF, CHR 0xB8, CHR 0x8F] @ '' Temp: '']\<close>

definition card_after_temperature :: string where
  \<open>card_after_temperature = concat
     [[CHR 0xC2, CHR 0xB0] @ ''C | '' @ [CHR 0xF0, CHR 0x9F, CHR 0x92, CHR 0xA7] @ '' Hum: '']\<close>

definition card_close :: string where
  \<open>card_close = concat
     [''%'' @ [CHR 0x0A],
      ''        </div>'' @ [CHR 0x0A],
      ''      '']\<close>

definition page_tail :: string where
  \<open>page_tail = concat
     [[CHR 0x0A],
      ''    </div>'' @ [CHR 0x0A],
      ''    <p><a href="/api/data">View all data as JSON</a></p>'' @ [CHR 0x0A],
      ''    <p><a href="/api/health">Server health</a></p>'' @ [CHR 0x0A],
      ''  </body>'' @ [CHR 0x0A],
      ''  </html>'' @ [CHR 0x0A],
      ''  '']\<close>

text \<open>One card of the dashboard; printing a temperature or humidity may throw.\<close>

definition render_card :: "runtime \<Rightarrow> entry \<Rightarrow> js_error + string" where
  "render_card rt item =
     and_then (ToString rt (temperature item)) (\<lambda>t.
     and_then (ToString rt (humidity item)) (\<lambda>h.
     Inr (card_open @ toLocaleString rt (timestamp item) @ card_after_date @ t
          @ card_after_temperature @ h @ card_close)))"

definition dashboard_items :: "state \<Rightarrow> entry list" where
  "dashboard_items st = slice (sensorData st) 0 10"

definition dashboard :: "runtime \<Rightarrow> state \<Rightarrow> response \<times> state" where
  "dashboard rt st =
     (case collect (map (render_card rt) (dashboard_items st)) of
        Inl e \<Rightarrow> (Uncaught e, st)
      | Inr cards \<Rightarrow>
          (HtmlPage (page_head
             @ NumberToString rt (Finite (of_nat (length (sensorData st))))
             @ page_before_cards @ join_with [] cards @ page_tail), st))"

definition root :: "state \<Rightarrow> response \<times> state" where
  "root st =
     (RootInfo ''Arduino Sensor API''
        [(''postData'', ''POST /api/data''),
         (''getData'', ''GET /api/data''),
         (''health'', ''GET /api/health''),
         (''test'', ''GET /api/test''),
         (''simple'', ''GET /api/simple?temp=25&hum=60''),
         (''dashboard'', ''GET /dashboard'')]
        ''Send sensor data as: temp=25.5&hum=60.0'', st)"

section \<open>The service as a whole\<close>

datatype call =
    PostData clock request
  | GetData
  | ApiTest
  | ApiHealth process_info
  | ApiSimple clock request
  | Dashboard
  | Root

fun handle :: "runtime \<Rightarrow> call \<Rightarrow> state \<Rightarrow> response \<times> state" where
  "handle rt (PostData clk req) st = post_data rt clk req st"
| "handle rt GetData st = get_data st"
| "handle rt ApiTest st = api_test st"
| "handle rt (ApiHealth p) st = api_health p st"
| "handle rt (ApiSimple clk req) st = api_simple clk req st"
| "handle rt Dashboard st = dashboard rt st"
| "handle rt Root st = root st"

text \<open>Requests are handled one after the other, each on the state the last one left.\<close>

fun run :: "runtime \<Rightarrow> call list \<Rightarrow> state \<Rightarrow> state" where
  "run rt [] st = st"
| "run rt (c # cs) st = run rt cs (snd (handle rt c st))"

text \<open>
  The entry a call inserts through \<open>POST /api/data\<close>: none for a request that ends in
  the \<open>catch\<close> block, and none for any other call.
\<close>

fun posted_entry :: "runtime \<Rightarrow> call \<Rightarrow> entry option" where
  "posted_entry rt (PostData clk req) =
     (case parse_body rt req of
        Inl e \<Rightarrow> None
      | Inr th \<Rightarrow> Some (make_entry clk req th))"
| "posted_entry rt c = None"

fun is_post :: "call \<Rightarrow> bool" where
  "is_post (PostData clk req) = True"
| "is_post c = False"

section \<open>A runtime without rounding\<close>

text \<open>
  One runtime, to run the handlers on given requests: a literal denotes its exact value,
  a finite number prints in decimal with at most 17 digits after the point, and a
  timestamp prints as it is.
\<close>

function show_nat :: "nat \<Rightarrow> string" where
  "show_nat n =
     (if n < 10 then [''0123456789'' ! n]
      else show_nat (n div 10) @ [''0123456789'' ! (n mod 10)])"
  by pat_completeness auto
termination
  by (relation "measure id") auto

fun show_fraction :: "nat \<Rightarrow> rat \<Rightarrow> string" where
  "show_fraction 0 q = []"
| "show_fraction (Suc k) q =
     (if q = 0 then []
      else let d = nat \<lfloor>q * 10\<rfloor>
           in (''0123456789'' ! d) # show_fraction k (q * 10 - of_nat d))"

definition show_number :: "jsnum \<Rightarrow> string" where
  "show_number n =
     (case n of
        NaN \<Rightarrow> ''NaN''
      | PosInfinity \<Rightarrow> ''Infinity''
      | NegInfinity \<Rightarrow> ''-Infinity''
      | Finite q \<Rightarrow>
          (let whole = nat \<lfloor>\<bar>q\<bar>\<rfloor>;
               part = \<bar>q\<bar> - of_nat whole
           in (if q < 0 then ''-'' else []) @ show_nat whole
              @ (if part = 0 then [] else ''.'' @ show_fraction 17 part)))"

definition exact_runtime :: runtime where
  "exact_runtime =
     \<lparr>StringToNumber = Finite, NumberToString = show_number, toLocaleString = (\<lambda>s. s)\<rparr>"

text \<open>
  The readings a sequence of calls inserts through \<open>POST /api/data\<close>, oldest first.
\<close>

definition inserted :: "runtime \<Rightarrow> call list \<Rightarrow> entry list" where
  "inserted rt calls = List.map_filter (posted_entry rt) calls"

section \<open>Example requests\<close>

text \<open>A clock that reads \<open>i\<close> everywhere, so that entries made at different ticks differ.\<close>

definition tick :: "nat \<Rightarrow> clock" where
  "tick i =
     \<lparr>request_iso = show_nat i, now_ms = int i, entry_iso = show_nat i,
      entry_locale = show_nat i\<rparr>"

definition form_request :: request where
  "form_request =
     \<lparr>headers = [(''content-type'', ''application/x-www-form-urlencoded'')],
      body = Obj [(''temp'', Str ''25.5''), (''hum'', Str ''60.0'')],
      query = []\<rparr>"

definition text_request :: "string \<Rightarrow> request" where
  "text_request s =
     \<lparr>headers = [(''content-type'', ''text/plain'')], body = Str s, query = []\<rparr>"

definition json_request :: "jsval \<Rightarrow> request" where
  "json_request v =
     \<lparr>headers = [(''content-type'', ''application/json'')], body = v, query = []\<rparr>"


definition query_request :: "(string \<times> jsval) list \<Rightarrow> request" where
  "query_request q = \<lparr>headers = [], body = Undefined, query = q\<rparr>"

text \<open>A history of \<open>GET /api/simple\<close> entries made at the given ticks, and a state holding it.\<close>

definition simple_entries :: "nat list \<Rightarrow> entry list" where
  "simple_entries ts = map (\<lambda>i. SimpleEntry (show_nat i) (Str ''12'') (Str ''34'') ''GET'') ts"

definition history_state :: "entry list \<Rightarrow> state" where
  "history_state es = initial_state\<lparr>sensorData := es\<rparr>"

text \<open>The failure shape \<open>{success: false, error, help}\<close>, sent from the \<open>catch\<close> block only.\<close>

definition is_failure :: "response \<Rightarrow> bool" where
  "is_failure r = (case r of PostError e h \<Rightarrow> True | _ \<Rightarrow> False)"

section \<open>Basic facts\<close>

lemma slice_from_0: "slice xs 0 (int n) = take n xs"
  by (simp add: slice_def min_def)

lemma store_take: "store e sd = take 100 (e # sd)"
proof -
  have "slice (e # sd) 0 (int 100) = take 100 (e # sd)" by (rule slice_from_0)
  then show ?thesis by (simp add: store_def Let_def)
qed


lemma take_append_take: "take n (xs @ take n ys) = take n (xs @ ys)"
  by (simp add: min_def)





subsection \<open>The two ways out of \<open>POST /api/data\<close>\<close>

lemma post_data_caught:
  "parse_body rt req = Inl e \<Longrightarrow>
   post_data rt clk req st =
     (PostError e ''Send data as: temp=25.5&hum=60.0'', count_request clk st)"
  by (simp add: post_data_def)

lemma post_data_stored:
  "parse_body rt req = Inr th \<Longrightarrow>
   post_data rt clk req st =
     (PostOk ''Data received successfully'' (make_entry clk req th)
        (length (store (make_entry clk req th) (sensorData st))) ''Node.js API on Render'',
      \<lparr>sensorData = store (make_entry clk req th) (sensorData st),
       apiStats = \<lparr>totalRequests = totalRequests (apiStats st) + 1,
                   successfulPosts = successfulPosts (apiStats st) + 1,
                   lastRequest = Some (request_iso clk)\<rparr>\<rparr>)"
  by (simp add: post_data_def Let_def count_request_def)

lemma sensorData_post_data:
  "sensorData (snd (post_data rt clk req st)) =
     (case posted_entry rt (PostData clk req) of
        None \<Rightarrow> sensorData st
      | Some e \<Rightarrow> take 100 (e # sensorData st))"
  by (cases "parse_body rt req")
     (simp_all add: post_data_caught post_data_stored store_take count_request_def)

text \<open>After a stored \<open>POST\<close> the history holds at most 100 entries, whatever it held before.\<close>

lemma stored_post_within_cap:
  "parse_body rt req = Inr th \<Longrightarrow> length (sensorData (snd (post_data rt clk req st))) \<le> 100"
  by (simp add: sensorData_post_data)

subsection \<open>Fields that are absent or are no number, in a form or JSON body\<close>

lemma parseFloat_undefined: "parseFloat rt Undefined = Inr NaN"
  by (simp add: parseFloat_def parseFloat_string_def StrUnsignedDecimalLiteral_def
      white_space_def is_digit_def)

lemma absent_field_is_zero:
  "body req = Obj ps \<Longrightarrow> map_of ps k = None \<Longrightarrow> field_or_zero rt req k = Inr (Finite 0)"
  by (simp add: field_or_zero_def and_then_def parseFloat_undefined or_zero_def)

lemma unparsed_field_is_zero:
  "get_prop (body req) k = Inr v \<Longrightarrow> parseFloat rt v = Inr NaN \<Longrightarrow>
   field_or_zero rt req k = Inr (Finite 0)"
  by (simp add: field_or_zero_def and_then_def or_zero_def)

subsection \<open>Sequences of calls\<close>

lemma length_run_simple:
  "length (sensorData (run rt (replicate n (ApiSimple clk req)) st)) =
     n + length (sensorData st)"
  by (induction n arbitrary: st) (simp_all add: api_simple_def Let_def)

lemma run_posts_history:
  assumes "\<forall>c \<in> set calls. is_post c" and "length (sensorData st) \<le> 100"
  shows "sensorData (run rt calls st) =
           take 100 (rev (List.map_filter (posted_entry rt) calls) @ sensorData st)"
  using assms
proof (induction calls arbitrary: st)
  case Nil
  then show ?case by (simp add: map_filter_simps)
next
  case (Cons c cs)
  from Cons.prems obtain clk req where c: "c = PostData clk req"
    by (cases c) auto
  let ?st = "snd (post_data rt clk req st)"
  show ?case
  proof (cases "posted_entry rt c")
    case None
    with c have "sensorData ?st = sensorData st" by (simp add: sensorData_post_data)
    with Cons None c show ?thesis by (simp add: map_filter_simps)
  next
    case (Some e)
    with c have sd: "sensorData ?st = take 100 (e # sensorData st)"
      by (simp add: sensorData_post_data)
    then have "length (sensorData ?st) \<le> 100" by simp
    with Cons have "sensorData (run rt cs ?st) =
        take 100 (rev (List.map_filter (posted_entry rt) cs) @ sensorData ?st)" by simp
    also have "\<dots> = take 100 (rev (List.map_filter (posted_entry rt) cs) @ e # sensorData st)"
      unfolding sd by (rule take_append_take)
    finally show ?thesis using Some c by (simp add: map_filter_simps)
  qed
qed

subsection \<open>The example requests, parsed\<close>

lemma parse_form_request:
  "parse_body exact_runtime form_request = Inr (Finite (51 / 2), Finite 60)"
  by (simp add: parse_body_def form_request_def header_or_def field_or_zero_def and_then_def
      parseFloat_def parseFloat_string_def StrUnsignedDecimalLiteral_def white_space_def
      is_digit_def digits_value_def ExponentPart_def exact_runtime_def or_zero_def)

lemma parse_text_dot:
  "parse_body exact_runtime (text_request ''temp=.&hum=60'') = Inr (NaN, Finite 60)"
  by (simp add: parse_body_def text_request_def header_or_def match_or_zero_def and_then_def
      parseFloat_def parseFloat_string_def StrUnsignedDecimalLiteral_def white_space_def
      is_digit_def digits_value_def ExponentPart_def exact_runtime_def)

lemma parse_json_undefined:
  "parse_body rt (json_request Undefined) = Inl (CannotReadProperty ''temp'')"
  by (simp add: parse_body_def json_request_def header_or_def field_or_zero_def and_then_def)



lemma inserted_form_requests:
  "inserted exact_runtime (map (\<lambda>i. PostData (tick i) form_request) ts) =
     map (\<lambda>i. make_entry (tick i) form_request (Finite (51 / 2), Finite 60)) ts"
  by (induction ts) (simp_all add: inserted_def map_filter_simps parse_form_request)



section \<open>The claims\<close>

text \<open>
  C1. The history holds at most 100 entries after any mutating operation: every
  insertion, by any endpoint, goes to the front, and what lies beyond the cap is dropped
  in the same operation. \<open>GET /api/simple\<close> inserts without the cut that
  \<open>POST /api/data\<close> makes: 101 such requests on the empty history leave 101 entries.
\<close>

theorem simple_get_exceeds_cap:
  "length (sensorData (run exact_runtime
      (replicate 101
         (ApiSimple (tick 0) (query_request [(''temp'', Str ''12''), (''hum'', Str ''34'')])))
      initial_state)) = 101"
  by (simp add: length_run_simple initial_state_def)

text \<open>
  C2. From a history of at most 100 entries, any number of \<open>POST /api/data\<close> requests
  leaves at most 100 entries; once 105 readings have been inserted, the history has
  exactly 100 entries, the 100 inserted last, newest first.
\<close>

theorem post_history_capped:
  assumes "list_all is_post calls" and "length (sensorData st) \<le> 100"
  shows "length (sensorData (run rt calls st)) \<le> 100 \<and>
         (length (inserted rt calls) = 105 \<longrightarrow>
            length (sensorData (run rt calls st)) = 100 \<and>
            sensorData (run rt calls st) = rev (drop 5 (inserted rt calls)))"
proof -
  from assms(1) have posts: "\<forall>c \<in> set calls. is_post c"
    by (simp add: list_all_iff)
  have h: "sensorData (run rt calls st) = take 100 (rev (inserted rt calls) @ sensorData st)"
    unfolding inserted_def by (rule run_posts_history [OF posts assms(2)])
  have "length (sensorData (run rt calls st)) \<le> 100"
    unfolding h by simp
  moreover have "sensorData (run rt calls st) = rev (drop 5 (inserted rt calls))"
    if "length (inserted rt calls) = 105"
  proof -
    have "take 100 (rev (inserted rt calls)) = rev (drop 5 (inserted rt calls))"
      using that by (simp add: take_rev)
    with that show ?thesis unfolding h by simp
  qed
  ultimately show ?thesis by auto
qed

theorem post_history_capped_witness:
  "list_all is_post (map (\<lambda>i. PostData (tick i) form_request) [0..<105]) \<and>
   length (sensorData initial_state) \<le> 100 \<and>
   length (inserted exact_runtime (map (\<lambda>i. PostData (tick i) form_request) [0..<105])) = 105 \<and>
   length (sensorData (run exact_runtime (map (\<lambda>i. PostData (tick i) form_request) [0..<105])
     initial_state)) = 100 \<and>
   sensorData (run exact_runtime (map (\<lambda>i. PostData (tick i) form_request) [0..<105])
     initial_state) =
     rev (map (\<lambda>i. make_entry (tick i) form_request (Finite (51 / 2), Finite 60)) [5..<105])"
proof -
  let ?calls = "map (\<lambda>i. PostData (tick i) form_request) [0..<105]"
  have a: "list_all is_post ?calls" by (simp add: list_all_iff)
  have b: "length (sensorData initial_state) \<le> 100" by (simp add: initial_state_def)
  have c: "length (inserted exact_runtime ?calls) = 105"
    by (simp add: inserted_form_requests)
  have d: "drop 5 (inserted exact_runtime ?calls) =
      map (\<lambda>i. make_entry (tick i) form_request (Finite (51 / 2), Finite 60)) [5..<105]"
    by (simp add: inserted_form_requests drop_map)
  from post_history_capped [OF a b, of exact_runtime] a b c d show ?thesis
    by simp
qed

text \<open>
  C3. A \<open>temp\<close> or \<open>hum\<close> field that is absent or is no number is stored as 0, in each
  of the three encodings, and the request gets the success shape. In the raw-text
  branch the body \<open>temp=.&hum=60\<close> matches the pattern with the capture \<open>.\<close>, which is
  no number, and there is no \<open>|| 0\<close> on that branch: the stored temperature is \<open>NaN\<close>.
\<close>

theorem raw_text_dot_stores_NaN:
  "post_data exact_runtime (tick 0) (text_request ''temp=.&hum=60'') initial_state =
     (PostOk ''Data received successfully''
        (DataEntry 0 ''0'' (Num NaN) (Num (Finite 60)) ''0'' ''Unknown'') 1
        ''Node.js API on Render'',
      \<lparr>sensorData = [DataEntry 0 ''0'' (Num NaN) (Num (Finite 60)) ''0'' ''Unknown''],
       apiStats = \<lparr>totalRequests = 1, successfulPosts = 1, lastRequest = Some ''0''\<rparr>\<rparr>)"
proof -
  have "header_or (text_request ''temp=.&hum=60'') ''user-agent'' ''Unknown'' = ''Unknown''"
    by (simp add: header_or_def text_request_def)
  then show ?thesis
    by (simp add: post_data_def parse_text_dot make_entry_def store_def count_request_def
        initial_state_def tick_def Let_def)
qed




text \<open>
  C5. Every \<open>POST /api/data\<close> that the body parsers pass on to the handler adds one
  to \<open>totalRequests\<close> and sets \<open>lastRequest\<close>, whether it ends in the success or in the
  failure response: both updates are made before the \<open>try\<close> block is entered.
  \<open>successfulPosts\<close> grows by one when the request is stored and stays as it is when
  the \<open>catch\<close> block answers, which is exactly when parsing throws. A \<open>POST\<close> that a
  body parser refuses leaves the state as it was.
\<close>

theorem post_counters:
  "totalRequests (apiStats (snd (app_post rt clk (Passed req) st))) =
     totalRequests (apiStats st) + 1 \<and>
   lastRequest (apiStats (snd (app_post rt clk (Passed req) st))) = Some (request_iso clk) \<and>
   successfulPosts (apiStats (snd (app_post rt clk (Passed req) st))) =
     successfulPosts (apiStats st)
       + (if is_failure (fst (app_post rt clk (Passed req) st)) then 0 else 1) \<and>
   is_failure (fst (app_post rt clk (Passed req) st)) = (\<exists>e. parse_body rt req = Inl e) \<and>
   app_post rt clk (Passed req) st = post_data rt clk req st \<and>
   app_post rt clk Rejected st = (ParserError, st)"
  by (cases "parse_body rt req")
     (simp_all add: app_post_def post_data_def Let_def count_request_def is_failure_def)

text \<open>
  For every \<open>POST /api/data\<close>, as C5 was stated, it fails: a \<open>POST\<close> with malformed JSON
  under \<open>Content-Type: application/json\<close> is refused by the JSON parser, line 27 is never
  reached, and \<open>totalRequests\<close> and \<open>lastRequest\<close> are what they were.
\<close>

theorem rejected_post_not_counted:
  "app_post exact_runtime (tick 0) Rejected initial_state = (ParserError, initial_state) \<and>
   totalRequests (apiStats (snd (app_post exact_runtime (tick 0) Rejected initial_state))) \<noteq>
     totalRequests (apiStats initial_state) + 1 \<and>
   lastRequest (apiStats (snd (app_post exact_runtime (tick 0) Rejected initial_state))) = None"
  by (simp add: app_post_def initial_state_def)

text \<open>
  C6. \<open>GET /api/simple?temp=12&hum=34\<close> puts an entry with the strings \<open>12\<close> and
  \<open>34\<close>, not numbers, and the method \<open>GET\<close> at the front of the history; an absent
  parameter is stored as the string \<open>0\<close>; nothing is cut, so the history is one longer
  than before, also beyond 100 entries.
\<close>

theorem simple_get_inserts:
  "(map_of (query req) ''temp'' = Some (Str ''12'') \<and>
    map_of (query req) ''hum'' = Some (Str ''34'') \<longrightarrow>
      api_simple clk req st =
        (SimpleOk True (SimpleEntry (request_iso clk) (Str ''12'') (Str ''34'') ''GET''),
         st\<lparr>sensorData :=
              SimpleEntry (request_iso clk) (Str ''12'') (Str ''34'') ''GET'' # sensorData st\<rparr>)) \<and>
   (map_of (query req) ''temp'' = None \<longrightarrow>
      temperature (hd (sensorData (snd (api_simple clk req st)))) = Str ''0'') \<and>
   (map_of (query req) ''hum'' = None \<longrightarrow>
      humidity (hd (sensorData (snd (api_simple clk req st)))) = Str ''0'') \<and>
   tl (sensorData (snd (api_simple clk req st))) = sensorData st \<and>
   length (sensorData (snd (api_simple clk req st))) = Suc (length (sensorData st))"
  by (simp add: api_simple_def query_or_0_def Let_def)

theorem simple_get_inserts_witness:
  "map_of (query (query_request [(''temp'', Str ''12''), (''hum'', Str ''34'')])) ''temp'' =
     Some (Str ''12'') \<and>
   map_of (query (query_request [(''temp'', Str ''12''), (''hum'', Str ''34'')])) ''hum'' =
     Some (Str ''34'') \<and>
   sensorData (snd (api_simple (tick 1)
       (query_request [(''temp'', Str ''12''), (''hum'', Str ''34'')])
       (history_state (simple_entries [0..<100])))) =
     SimpleEntry ''1'' (Str ''12'') (Str ''34'') ''GET'' # simple_entries [0..<100] \<and>
   length (sensorData (snd (api_simple (tick 1)
       (query_request [(''temp'', Str ''12''), (''hum'', Str ''34'')])
       (history_state (simple_entries [0..<100]))))) = 101 \<and>
   map_of (query (query_request [])) ''temp'' = None \<and>
   map_of (query (query_request [])) ''hum'' = None \<and>
   temperature (hd (sensorData (snd (api_simple (tick 1) (query_request []) initial_state)))) =
     Str ''0'' \<and>
   humidity (hd (sensorData (snd (api_simple (tick 1) (query_request []) initial_state)))) =
     Str ''0''"
proof -
  let ?req = "query_request [(''temp'', Str ''12''), (''hum'', Str ''34'')]"
  let ?st = "history_state (simple_entries [0..<100])"
  have q: "map_of (query ?req) ''temp'' = Some (Str ''12'')"
      "map_of (query ?req) ''hum'' = Some (Str ''34'')"
    by (simp_all add: query_request_def)
  have a: "map_of (query (query_request [])) ''temp'' = None"
      "map_of (query (query_request [])) ''hum'' = None"
    by (simp_all add: query_request_def)
  have sd: "sensorData ?st = simple_entries [0..<100]" "request_iso (tick 1) = ''1''"
    by (simp_all add: history_state_def tick_def)
  have len: "length (simple_entries [0..<100]) = 100"
    by (simp add: simple_entries_def)
  from simple_get_inserts [of ?req "tick 1" ?st]
    simple_get_inserts [of "query_request []" "tick 1" initial_state] q a sd len
  show ?thesis by simp
qed



text \<open>
  C8. \<open>GET /api/test\<close> answers the plain text \<open>OK - Node.js API is working!\<close>, whatever
  the history and the counters hold.
\<close>

theorem test_probe_text:
  "fst (api_test st) = PlainText ''text/plain'' ''OK - Node.js API is working!''"
  by (simp add: api_test_def)

text \<open>
  C9. \<open>GET /api/data\<close>, \<open>GET /api/test\<close>, \<open>GET /api/health\<close>, \<open>GET /dashboard\<close> and
  \<open>GET /\<close> leave the history and the three counters as they were: the state after the
  request is the state before it.
\<close>

theorem queries_leave_state:
  "snd (get_data st) = st \<and> snd (api_test st) = st \<and> snd (api_health p st) = st \<and>
   snd (dashboard rt st) = st \<and> snd (root st) = st"
  by (simp add: get_data_def api_test_def api_health_def dashboard_def root_def
      split: sum.splits)

text \<open>
  C10. When \<open>POST /api/data\<close> answers with the failure shape, the history and
  \<open>successfulPosts\<close> are what they were before the request, while \<open>totalRequests\<close> has
  grown by one and \<open>lastRequest\<close> is set: whatever can throw runs before the history is
  touched.
\<close>

theorem failed_post_keeps_history:
  assumes "fst (post_data rt clk req st) = PostError e h"
  shows "sensorData (snd (post_data rt clk req st)) = sensorData st \<and>
         successfulPosts (apiStats (snd (post_data rt clk req st))) = successfulPosts (apiStats st) \<and>
         totalRequests (apiStats (snd (post_data rt clk req st))) = totalRequests (apiStats st) + 1 \<and>
         lastRequest (apiStats (snd (post_data rt clk req st))) = Some (request_iso clk)"
  using assms
  by (cases "parse_body rt req")
     (simp_all add: post_data_def Let_def count_request_def)

theorem failed_post_keeps_history_witness:
  "fst (post_data exact_runtime (tick 3) (json_request Undefined) initial_state) =
     PostError (CannotReadProperty ''temp'') ''Send data as: temp=25.5&hum=60.0'' \<and>
   sensorData (snd (post_data exact_runtime (tick 3) (json_request Undefined) initial_state)) = [] \<and>
   successfulPosts (apiStats
     (snd (post_data exact_runtime (tick 3) (json_request Undefined) initial_state))) = 0 \<and>
   totalRequests (apiStats
     (snd (post_data exact_runtime (tick 3) (json_request Undefined) initial_state))) = 1 \<and>
   lastRequest (apiStats
     (snd (post_data exact_runtime (tick 3) (json_request Undefined) initial_state))) = Some ''3''"
proof -
  have f: "fst (post_data exact_runtime (tick 3) (json_request Undefined) initial_state) =
      PostError (CannotReadProperty ''temp'') ''Send data as: temp=25.5&hum=60.0''"
    by (simp add: post_data_caught [OF parse_json_undefined])
  from failed_post_keeps_history [OF f] f show ?thesis
    by (simp add: initial_state_def tick_def)
qed

end
